theory Spec2Isabelle
  imports Main "HOL-Library.Word"
begin

section \<open>JavaScript values used by the dashboard\<close>

text \<open>
  A JavaScript string is a sequence of UTF-16 code units. String literals of the source
  are written \<open>js ''...''\<close>; the literals of the source that are compared or looked up
  are all ASCII.
\<close>

type_synonym code_unit = "16 word"
type_synonym jsstring = "code_unit list"

definition js :: "string \<Rightarrow> jsstring" where
  "js = map of_char"

text \<open>
  \<open>Object.prototype\<close>: every object literal inherits these properties (ECMAScript,
  including the Annex B members every browser ships). A property read \<open>obj[key]\<close> that
  finds no own property continues along the prototype chain, so it finds them; each of
  them is a function, except \<open>__proto__\<close>, whose getter gives \<open>Object.prototype\<close> itself.
  All of them are truthy.
\<close>

definition Object_prototype_keys :: "jsstring list" where
  "Object_prototype_keys =
     [js ''constructor'', js ''hasOwnProperty'', js ''isPrototypeOf'',
      js ''propertyIsEnumerable'', js ''toLocaleString'', js ''toString'', js ''valueOf'',
      js ''__proto__'', js ''__defineGetter__'', js ''__defineSetter__'',
      js ''__lookupGetter__'', js ''__lookupSetter__'']"

text \<open>The outcome of reading \<open>obj[key]\<close> on an object literal with values of type \<open>'a\<close>.\<close>

datatype 'a js_prop = Own 'a | Inherited jsstring | Undefined

definition js_get :: "(jsstring \<times> 'a) list \<Rightarrow> jsstring \<Rightarrow> 'a js_prop" where
  "js_get obj key =
     (case map_of obj key of
        Some v \<Rightarrow> Own v
      | None \<Rightarrow> if key \<in> set Object_prototype_keys then Inherited key else Undefined)"

text \<open>
  What a function declared to return \<open>'a\<close> gives back at run time: a value of that type,
  or the member of \<open>Object.prototype\<close> of the given name, which is not one.
\<close>

datatype 'a js_result = Value 'a | Builtin jsstring

section \<open>src/config/api.ts\<close>

subsection \<open>TASK_STATUS\<close>

definition GENERATE_NEW :: jsstring where "GENERATE_NEW = js ''new''"
definition GENERATE_INITIALIZING :: jsstring where "GENERATE_INITIALIZING = js ''initializing''"
definition GENERATE_INITIALIZED :: jsstring where "GENERATE_INITIALIZED = js ''initialized''"
definition GENERATE_GENERATING :: jsstring where "GENERATE_GENERATING = js ''generating''"
definition GENERATE_GENERATED :: jsstring where "GENERATE_GENERATED = js ''generated''"
definition GENERATE_TESTING :: jsstring where "GENERATE_TESTING = js ''testing''"
definition GENERATE_TESTED :: jsstring where "GENERATE_TESTED = js ''tested''"
definition GENERATE_DEPLOYING :: jsstring where "GENERATE_DEPLOYING = js ''deploying''"
definition GENERATE_DEPLOYED :: jsstring where "GENERATE_DEPLOYED = js ''deployed''"
definition GENERATE_ERROR :: jsstring where "GENERATE_ERROR = js ''error''"

definition AUDIT_NEW :: jsstring where "AUDIT_NEW = js ''new''"
definition AUDIT_AUDITING :: jsstring where "AUDIT_AUDITING = js ''auditing''"
definition AUDIT_AUDITED :: jsstring where "AUDIT_AUDITED = js ''audited''"
definition AUDIT_ERROR :: jsstring where "AUDIT_ERROR = js ''error''"

definition BUILD_NEW :: jsstring where "BUILD_NEW = js ''new''"
definition BUILD_BUILDING :: jsstring where "BUILD_BUILDING = js ''building''"
definition BUILD_BUILT :: jsstring where "BUILD_BUILT = js ''built''"
definition BUILD_ERROR :: jsstring where "BUILD_ERROR = js ''error''"

definition DEPLOY_NEW :: jsstring where "DEPLOY_NEW = js ''new''"
definition DEPLOY_DEPLOYING :: jsstring where "DEPLOY_DEPLOYING = js ''deploying''"
definition DEPLOY_DEPLOYED :: jsstring where "DEPLOY_DEPLOYED = js ''deployed''"
definition DEPLOY_ERROR :: jsstring where "DEPLOY_ERROR = js ''error''"

text \<open>The values of \<open>TASK_STATUS.GENERATE\<close>, in the order of the source.\<close>

definition TASK_STATUS_GENERATE :: "jsstring list" where
  "TASK_STATUS_GENERATE =
     [GENERATE_NEW, GENERATE_INITIALIZING, GENERATE_INITIALIZED, GENERATE_GENERATING,
      GENERATE_GENERATED, GENERATE_TESTING, GENERATE_TESTED, GENERATE_DEPLOYING,
      GENERATE_DEPLOYED, GENERATE_ERROR]"

definition TASK_STATUS_AUDIT :: "jsstring list" where
  "TASK_STATUS_AUDIT = [AUDIT_NEW, AUDIT_AUDITING, AUDIT_AUDITED, AUDIT_ERROR]"

definition TASK_STATUS_BUILD :: "jsstring list" where
  "TASK_STATUS_BUILD = [BUILD_NEW, BUILD_BUILDING, BUILD_BUILT, BUILD_ERROR]"

definition TASK_STATUS_DEPLOY :: "jsstring list" where
  "TASK_STATUS_DEPLOY = [DEPLOY_NEW, DEPLOY_DEPLOYING, DEPLOY_DEPLOYED, DEPLOY_ERROR]"

subsection \<open>isTaskCompleted, isTaskError\<close>

text \<open>
  The task type is a string at run time; the \<open>switch\<close> has a \<open>default\<close> branch for every
  string that is none of the four literals.
\<close>

definition isTaskCompleted :: "jsstring \<Rightarrow> jsstring \<Rightarrow> bool" where
  "isTaskCompleted status taskType =
     (if taskType = js ''generate'' then
        status = GENERATE_GENERATED \<or> status = GENERATE_DEPLOYED
      else if taskType = js ''audit'' then status = AUDIT_AUDITED
      else if taskType = js ''build'' then status = BUILD_BUILT
      else if taskType = js ''deploy'' then status = DEPLOY_DEPLOYED
      else False)"

definition isTaskError :: "jsstring \<Rightarrow> bool" where
  "isTaskError status = (status = js ''error'')"

subsection \<open>getStatusDisplayName\<close>

definition displayNames :: "(jsstring \<times> jsstring) list" where
  "displayNames =
     [(js ''new'', js ''New''),
      (js ''initializing'', js ''Initializing''),
      (js ''initialized'', js ''Initialized''),
      (js ''generating'', js ''Generating''),
      (js ''generated'', js ''Generated''),
      (js ''testing'', js ''Testing''),
      (js ''tested'', js ''Tested''),
      (js ''deploying'', js ''Deploying''),
      (js ''deployed'', js ''Deployed''),
      (js ''error'', js ''Error''),
      (js ''auditing'', js ''Auditing''),
      (js ''audited'', js ''Audited''),
      (js ''building'', js ''Building''),
      (js ''built'', js ''Built'')]"

text \<open>
  \<open>statusMap[status] || status\<close>: the left operand is returned when it is truthy (a
  non-empty string, or any object), the raw status otherwise.
\<close>

definition getStatusDisplayName :: "jsstring \<Rightarrow> jsstring js_result" where
  "getStatusDisplayName status =
     (case js_get displayNames status of
        Own v \<Rightarrow> if v \<noteq> [] then Value v else Value status
      | Inherited k \<Rightarrow> Builtin k
      | Undefined \<Rightarrow> Value status)"

subsection \<open>getProgressFromStatus\<close>

record progress_info =
  stage :: jsstring
  progress :: int
  message :: jsstring

definition progressTable :: "(jsstring \<times> progress_info) list" where
  "progressTable =
     [(js ''new'',
         \<lparr>stage = js ''initializing'', progress = 10, message = js ''Initializing...''\<rparr>),
      (js ''initializing'',
         \<lparr>stage = js ''initializing'', progress = 30, message = js ''Setting up environment...''\<rparr>),
      (js ''generating'',
         \<lparr>stage = js ''generating'', progress = 60, message = js ''Generating smart contract...''\<rparr>),
      (js ''generated'',
         \<lparr>stage = js ''completed'', progress = 100, message = js ''Contract generated successfully!''\<rparr>),
      (js ''testing'',
         \<lparr>stage = js ''testing'', progress = 80, message = js ''Running tests...''\<rparr>),
      (js ''tested'',
         \<lparr>stage = js ''deploying'', progress = 90, message = js ''Preparing for deployment...''\<rparr>),
      (js ''deploying'',
         \<lparr>stage = js ''deploying'', progress = 95, message = js ''Deploying to network...''\<rparr>),
      (js ''deployed'',
         \<lparr>stage = js ''completed'', progress = 100, message = js ''Contract deployed successfully!''\<rparr>),
      (js ''error'',
         \<lparr>stage = js ''error'', progress = 0, message = js ''Generation failed''\<rparr>),
      (js ''auditing'',
         \<lparr>stage = js ''generating'', progress = 50, message = js ''Analyzing code...''\<rparr>),
      (js ''audited'',
         \<lparr>stage = js ''completed'', progress = 100, message = js ''Audit completed!''\<rparr>),
      (js ''building'',
         \<lparr>stage = js ''generating'', progress = 50, message = js ''Building contract...''\<rparr>),
      (js ''built'',
         \<lparr>stage = js ''completed'', progress = 100, message = js ''Build completed!''\<rparr>)]"

definition defaultProgress :: progress_info where
  "defaultProgress =
     \<lparr>stage = js ''initializing'', progress = 0, message = js ''Processing...''\<rparr>"

text \<open>
  \<open>statusMap[status] || {...}\<close>: every object is truthy, so an own entry and an
  inherited member are both returned as they are.
\<close>

definition getProgressFromStatus :: "jsstring \<Rightarrow> progress_info js_result" where
  "getProgressFromStatus status =
     (case js_get progressTable status of
        Own v \<Rightarrow> Value v
      | Inherited k \<Rightarrow> Builtin k
      | Undefined \<Rightarrow> Value defaultProgress)"

text \<open>
  Reading \<open>.progress\<close> on the result: the field of the tuple, or \<open>undefined\<close> (\<open>None\<close>) on
  a member of \<open>Object.prototype\<close>, none of which has such a property.
\<close>

definition progress_of :: "progress_info js_result \<Rightarrow> int option" where
  "progress_of r = (case r of Value v \<Rightarrow> Some (progress v) | Builtin k \<Rightarrow> None)"

section \<open>src/components/dashboard/Dashboard.tsx\<close>

subsection \<open>Built-ins: trimming, searching, printing numbers, the clock\<close>

text \<open>
  \<open>String.prototype.trim\<close> removes the WhiteSpace and LineTerminator code points of
  ECMAScript from both ends; all of them are single code units.
\<close>

definition isWhiteSpace :: "code_unit \<Rightarrow> bool" where
  "isWhiteSpace c \<longleftrightarrow>
     c = 0x0009 \<or> c = 0x000A \<or> c = 0x000B \<or> c = 0x000C \<or> c = 0x000D \<or> c = 0x0020 \<or>
     c = 0x00A0 \<or> c = 0x1680 \<or> (0x2000 \<le> c \<and> c \<le> 0x200A) \<or> c = 0x2028 \<or> c = 0x2029 \<or>
     c = 0x202F \<or> c = 0x205F \<or> c = 0x3000 \<or> c = 0xFEFF"

definition trim :: "jsstring \<Rightarrow> jsstring" where
  "trim s = rev (dropWhile isWhiteSpace (rev (dropWhile isWhiteSpace s)))"

text \<open>\<open>s.includes(w)\<close>: \<open>w\<close> occurs in \<open>s\<close> at some position.\<close>

definition includes' :: "jsstring \<Rightarrow> jsstring \<Rightarrow> bool" where
  "includes' s w = list_ex (\<lambda>i. take (length w) (drop i s) = w) [0..<Suc (length s)]"

text \<open>
  A non-negative integer in a template literal is printed in decimal. The clock and the
  message counter are integers far below \<open>2^53\<close>, where JavaScript numbers are exact.
\<close>

definition digit :: "nat \<Rightarrow> code_unit" where
  "digit d = of_nat (48 + d)"

fun decimal :: "nat \<Rightarrow> jsstring" where
  "decimal n = (if n < 10 then [digit n] else decimal (n div 10) @ [digit (n mod 10)])"

declare decimal.simps [simp del]

text \<open>
  What the handlers take from their environment: the clock (the \<open>n\<close>-th reading of
  \<open>Date.now()\<close> or \<open>new Date()\<close>, in milliseconds), \<open>Date.prototype.toISOString\<close> and
  \<open>String.prototype.toLowerCase\<close>.
\<close>

record env =
  clock :: "nat \<Rightarrow> nat"
  toISOString :: "nat \<Rightarrow> jsstring"
  toLowerCase :: "jsstring \<Rightarrow> jsstring"

text \<open>A thrown value: an \<open>Error\<close> with its message, or anything else.\<close>

datatype thrown = Error jsstring | NotAnError

text \<open>The settlement of the promise an \<open>async\<close> handler returns.\<close>

datatype 'a promise = Resolved 'a | Rejected thrown

subsection \<open>Project, ChatMessage and the state of the component\<close>

text \<open>
  The fields of \<open>Project\<close> (declared in \<open>@/types/dashboard\<close>) that the component reads
  or writes. \<open>None\<close> stands for a property that is absent, \<open>undefined\<close> or \<open>null\<close>.
\<close>

record project =
  uid :: jsstring
  bummUid :: "jsstring option"
  name :: "jsstring option"
  status :: jsstring
  task :: "jsstring option"
  created_at :: jsstring
  updated_at :: jsstring
  isDeployed :: bool
  isFrozen :: bool
  contractAddress :: "jsstring option"
  contract_address :: "jsstring option"
  deployment_status :: "jsstring option"

text \<open>\<open>ChatMessage\<close>; the \<open>timestamp\<close> is a \<open>Date\<close>, held as its milliseconds.\<close>

record chat_message =
  id' :: jsstring
  content :: jsstring
  timestamp :: nat
  isUser :: bool
  projectUid :: "jsstring option"
  taskType :: "jsstring option"

text \<open>Modelled from the spec: \<open>User\<close> is \<open>{ id, walletAddress }\<close>; the component only tests it for \<open>null\<close>.\<close>

record user_info =
  user_id :: jsstring
  walletAddress :: jsstring

text \<open>The reply of the chat backend, as \<open>handleSendMessage\<close> reads it.\<close>

record chat_response =
  reply :: jsstring
  action :: "jsstring option"
  bumm_uid :: "jsstring option"

text \<open>
  The state the handlers work on: \<open>user\<close> and \<open>projects\<close> belong to the hook
  \<open>useBummApi\<close>, the rest to the component; \<open>messageIdCounter\<close> is the ref of
  \<open>generateUniqueMessageId\<close>, \<open>clockReads\<close> counts the readings of the clock.
\<close>

record dashboard =
  user :: "user_info option"
  projects :: "project list"
  currentProject :: "project option"
  messages :: "chat_message list"
  isBuilding :: bool
  generatedCode :: "(jsstring \<times> jsstring) option"
  generationAttemptFailed :: nat
  messageIdCounter :: nat
  clockReads :: nat

text \<open>
  The three callbacks handed to \<open>trackTaskStatus\<close> are closures; they are given by
  the variables they capture: the id of the status message and the project. Their bodies
  run later, when the tracker calls them, and are not part of a handler's own run.
\<close>

datatype callbacks = GenerateCallbacks jsstring project | BuildCallbacks jsstring project

text \<open>
  Calls that a handler makes without awaiting a result: starting a tracker
  (\<open>trackTaskStatus(uid, taskType, onProgress, onComplete, onError, bummUid)\<close>) and
  \<open>analytics.trackContractDeploy(uid, contractAddress)\<close>. A handler returns the calls it
  made, in order. Output to the console is left out.
\<close>

datatype effect =
    TrackTaskStatus jsstring jsstring callbacks jsstring
  | TrackContractDeploy jsstring jsstring

subsection \<open>State setters and the clock\<close>

definition setMessages :: "(chat_message list \<Rightarrow> chat_message list) \<Rightarrow> dashboard \<Rightarrow> dashboard" where
  "setMessages f s = s\<lparr>messages := f (messages s)\<rparr>"

definition setCurrentProject :: "project option \<Rightarrow> dashboard \<Rightarrow> dashboard" where
  "setCurrentProject p s = s\<lparr>currentProject := p\<rparr>"

definition setIsBuilding :: "bool \<Rightarrow> dashboard \<Rightarrow> dashboard" where
  "setIsBuilding b s = s\<lparr>isBuilding := b\<rparr>"

definition setGenerationAttemptFailed :: "(nat \<Rightarrow> nat) \<Rightarrow> dashboard \<Rightarrow> dashboard" where
  "setGenerationAttemptFailed f s = s\<lparr>generationAttemptFailed := f (generationAttemptFailed s)\<rparr>"

text \<open>
  Modelled from the spec: \<open>updateProjects\<close> of the hook \<open>useBummApi\<close> (not in the
  sources at hand) applies a pure transform to the previous Project collection.
\<close>

definition updateProjects :: "(project list \<Rightarrow> project list) \<Rightarrow> dashboard \<Rightarrow> dashboard" where
  "updateProjects f s = s\<lparr>projects := f (projects s)\<rparr>"

text \<open>One reading of the clock: \<open>Date.now()\<close>, and the instant of a \<open>new Date()\<close>.\<close>

definition Date_now :: "env \<Rightarrow> dashboard \<Rightarrow> nat \<times> dashboard" where
  "Date_now e s = (clock e (clockReads s), s\<lparr>clockReads := Suc (clockReads s)\<rparr>)"

subsection \<open>generateUniqueMessageId, chat messages\<close>

definition generateUniqueMessageId :: "env \<Rightarrow> dashboard \<Rightarrow> jsstring \<times> dashboard" where
  "generateUniqueMessageId e s =
     (let s1 = s\<lparr>messageIdCounter := messageIdCounter s + 1\<rparr>;
          (now, s2) = Date_now e s1
      in (decimal now @ js ''_'' @ decimal (messageIdCounter s2), s2))"

text \<open>
  The pattern every handler uses to post a message: an object literal with
  \<open>id: generateUniqueMessageId()\<close> (or an id generated just before) and
  \<open>timestamp: new Date()\<close>, then \<open>setMessages(prev => [...prev, message])\<close>.
  The id is returned, for the handlers that keep it.
\<close>

definition postMessage ::
  "env \<Rightarrow> jsstring \<Rightarrow> bool \<Rightarrow> jsstring option \<Rightarrow> jsstring option \<Rightarrow> dashboard \<Rightarrow> jsstring \<times> dashboard" where
  "postMessage e text fromUser puid ttype s =
     (let (mid, s1) = generateUniqueMessageId e s;
          (now, s2) = Date_now e s1;
          m = \<lparr>id' = mid, content = text, timestamp = now, isUser = fromUser,
               projectUid = puid, taskType = ttype\<rparr>
      in (mid, setMessages (\<lambda>prev. prev @ [m]) s2))"

definition addAIMessage :: "env \<Rightarrow> jsstring \<Rightarrow> dashboard \<Rightarrow> dashboard" where
  "addAIMessage e text s = snd (postMessage e text False None None s)"

text \<open>\<open>err instanceof Error ? err.message : 'Unknown error'\<close>\<close>

definition errorText :: "thrown \<Rightarrow> jsstring" where
  "errorText err = (case err of Error m \<Rightarrow> m | NotAnError \<Rightarrow> js ''Unknown error'')"

text \<open>\<open>x || y\<close> on an optional string: \<open>x\<close> when it is present and not empty, else \<open>y\<close>.\<close>

definition or_else :: "jsstring option \<Rightarrow> jsstring \<Rightarrow> jsstring" where
  "or_else x y = (case x of Some v \<Rightarrow> if v \<noteq> [] then v else y | None \<Rightarrow> y)"

subsection \<open>handleSendMessage\<close>

definition codeRelatedWords :: "jsstring list" where
  "codeRelatedWords =
     [js ''this code'', js ''my code'', js ''the code'', js ''this contract'', js ''improve'',
      js ''fix'', js ''review'', js ''audit'', js ''build'']"

text \<open>
  Step 2: the message sent to the backend. The pasted code is appended, in a fenced
  block, when it is longer than 50 code units after trimming and the message names it.
\<close>

definition messageToSend :: "env \<Rightarrow> jsstring \<Rightarrow> jsstring option \<Rightarrow> jsstring" where
  "messageToSend e content' currentContractCode =
     (case currentContractCode of
        None \<Rightarrow> content'
      | Some code \<Rightarrow>
          if code \<noteq> [] \<and> length (trim code) > 50
             \<and> list_ex (\<lambda>w. includes' (toLowerCase e content') w) codeRelatedWords
          then content' @ [0x0A, 0x0A] @ js ''Here is the current contract code:'' @ [0x0A]
               @ [0x60, 0x60, 0x60] @ js ''rust'' @ [0x0A] @ code @ [0x0A] @ [0x60, 0x60, 0x60]
          else content')"

text \<open>
  Step 5, once the project is known: attach the backend uid, post the status message
  (U+26A1 and " Initializing..."), start the tracker.
\<close>

definition handleSendMessage_generate ::
  "env \<Rightarrow> project \<Rightarrow> jsstring \<Rightarrow> dashboard \<Rightarrow> dashboard \<times> effect list" where
  "handleSendMessage_generate e project response_bumm_uid s =
     (let updatedProject = project\<lparr>bummUid := Some response_bumm_uid, status := js ''in-progress''\<rparr>;
          s1 = setCurrentProject (Some updatedProject) s;
          (statusMessageId, s2) =
             postMessage e ([0x26A1] @ js '' Initializing...'') False None None s1
      in (s2, [TrackTaskStatus (uid updatedProject) (js ''generate'')
                 (GenerateCallbacks statusMessageId updatedProject) response_bumm_uid]))"

text \<open>The \<open>catch\<close> block.\<close>

definition handleSendMessage_catch :: "env \<Rightarrow> dashboard \<Rightarrow> dashboard" where
  "handleSendMessage_catch e s =
     snd (postMessage e (js ''Sorry, something went wrong. Please try again.'') False None None s)"

text \<open>\<open>currentProject?.bummUid || null\<close>\<close>

definition currentBummUid :: "project option \<Rightarrow> jsstring option" where
  "currentBummUid cur =
     (case cur of
        None \<Rightarrow> None
      | Some p \<Rightarrow> (case bummUid p of
                    Some b \<Rightarrow> if b \<noteq> [] then Some b else None
                  | None \<Rightarrow> None))"

text \<open>
  \<open>sendChatMessage\<close> and \<open>createProject\<close> belong to the hook and are awaited: each is
  a parameter that gives the outcome of the call and the state in which the handler
  resumes. \<open>currentProject\<close> is the value the handler captured when it was called.
\<close>

definition handleSendMessage ::
  "env \<Rightarrow> (jsstring \<Rightarrow> jsstring option \<Rightarrow> dashboard \<Rightarrow> (thrown + chat_response) \<times> dashboard)
       \<Rightarrow> (jsstring \<Rightarrow> dashboard \<Rightarrow> (thrown + project) \<times> dashboard)
       \<Rightarrow> jsstring \<Rightarrow> jsstring option \<Rightarrow> dashboard \<Rightarrow> dashboard \<times> effect list" where
  "handleSendMessage e sendChatMessage createProject content' currentContractCode s =
     (let currentProject0 = currentProject s;
          (userMessageId, s1) = postMessage e content' True None None s;
          (r, s2) = sendChatMessage (messageToSend e content' currentContractCode)
                      (currentBummUid currentProject0) s1
      in case r of
           Inl err \<Rightarrow> (handleSendMessage_catch e s2, [])
         | Inr response \<Rightarrow>
             let (aiMessageId, s3) = postMessage e (reply response) False None None s2;
                 s4 = (if action response \<noteq> Some (js ''generate'')
                       then setGenerationAttemptFailed (\<lambda>prev. prev + 1) s3 else s3)
             in case bumm_uid response of
                  None \<Rightarrow> (s4, [])
                | Some b \<Rightarrow>
                    if action response = Some (js ''generate'') \<and> b \<noteq> [] then
                      (case currentProject0 of
                         Some project \<Rightarrow> handleSendMessage_generate e project b s4
                       | None \<Rightarrow>
                           let (c, s5) = createProject (js ''New Contract'') s4
                           in (case c of
                                 Inl err \<Rightarrow> (handleSendMessage_catch e s5, [])
                               | Inr project \<Rightarrow> handleSendMessage_generate e project b s5))
                    else (s4, []))"

subsection \<open>handleBuild\<close>

text \<open>
  \<open>buildContract\<close> is awaited and is a parameter like \<open>sendChatMessage\<close>. The status
  message starts with U+1F527 (a surrogate pair).
\<close>

definition handleBuild ::
  "env \<Rightarrow> (jsstring \<Rightarrow> jsstring option \<Rightarrow> dashboard \<Rightarrow> (thrown + project) \<times> dashboard)
       \<Rightarrow> jsstring \<Rightarrow> dashboard \<Rightarrow> dashboard \<times> effect list" where
  "handleBuild e buildContract code s =
     (let currentProject0 = currentProject s in
      if user s = None \<or> trim code = [] then (s, [])
      else
        let s1 = setIsBuilding True s;
            (buildStatusMessageId, s2) =
               postMessage e ([0xD83D, 0xDD27] @ js '' Initializing build...'') False None None s1;
            (r, s3) = buildContract code (map_option uid currentProject0) s2
        in case r of
             Inr project \<Rightarrow>
               let buildBummUid = or_else (bummUid project) (uid project)
               in (s3, [TrackTaskStatus (uid project) (js ''build'')
                          (BuildCallbacks buildStatusMessageId project) buildBummUid])
           | Inl err \<Rightarrow>
               let s4 = setIsBuilding False s3;
                   (errorMessageId, s5) =
                      postMessage e (js ''Failed to start build: '' @ errorText err) False None None s4
               in (s5, []))"

subsection \<open>handleDeploy\<close>

definition handleDeploy ::
  "env \<Rightarrow> (jsstring \<Rightarrow> dashboard \<Rightarrow> (thrown + jsstring) \<times> dashboard)
       \<Rightarrow> jsstring \<Rightarrow> dashboard \<Rightarrow> jsstring option promise \<times> dashboard \<times> effect list" where
  "handleDeploy e deployContract code s =
     (let currentProject0 = currentProject s in
      if user s = None \<or> trim code = [] then (Resolved None, s, [])
      else
        let (deployingMessageId, s1) =
               postMessage e (js ''Starting deployment...'') False None None s;
            (r, s2) = deployContract code s1
        in case r of
             Inr contractAddress' \<Rightarrow>
               let (s5, fx) =
                      (case currentProject0 of
                         Some cur \<Rightarrow>
                           let (now, s3) = Date_now e s2;
                               updatedProject =
                                 cur\<lparr>contractAddress := Some contractAddress', isDeployed := True,
                                     status := js ''deployed'', updated_at := toISOString e now\<rparr>;
                               s4 = setCurrentProject (Some updatedProject) s3
                           in (updateProjects
                                 (map (\<lambda>p. if uid p = uid cur then updatedProject else p)) s4,
                               [TrackContractDeploy (uid cur) contractAddress'])
                       | None \<Rightarrow> (s2, []));
                   (successMessageId, s6) =
                      postMessage e
                        (js ''Deployment successful! Your smart contract is now live on Solana. Contract address: ''
                           @ contractAddress')
                        False None None s5
               in (Resolved (Some contractAddress'), s6, fx)
           | Inl err \<Rightarrow>
               let (errorMessageId, s3) =
                      postMessage e (js ''Deployment failed: '' @ errorText err) False None None s2
               in (Rejected err, s3, []))"

subsection \<open>handleDuplicateProject\<close>

text \<open>
  Nothing in the \<open>try\<close> block throws for a project of the declared type, so the
  \<open>catch\<close> block has no branch here. The quotation marks of the chat message are the
  code unit 0x22.
\<close>

definition handleDuplicateProject :: "env \<Rightarrow> project \<Rightarrow> dashboard \<Rightarrow> dashboard" where
  "handleDuplicateProject e project s =
     (let (now_uid, s1) = Date_now e s;
          (now_created, s2) = Date_now e s1;
          (now_updated, s3) = Date_now e s2;
          duplicatedName = or_else (name project) (js ''Untitled'') @ js '' (Copy)'';
          duplicatedProject =
            project\<lparr>uid := js ''project_'' @ decimal now_uid,
                    name := Some duplicatedName,
                    created_at := toISOString e now_created,
                    updated_at := toISOString e now_updated,
                    isDeployed := False,
                    isFrozen := False,
                    contract_address := None,
                    deployment_status := None\<rparr>;
          s4 = updateProjects (\<lambda>prev. duplicatedProject # prev) s3
      in addAIMessage e
           (js ''Project '' @ [0x22] @ or_else (name project) (js ''Untitled'') @ [0x22]
              @ js '' duplicated as '' @ [0x22] @ duplicatedName @ [0x22])
           s4)"

subsection \<open>A concrete environment, projects and collaborators\<close>

text \<open>
  The clock stands at 1700000000000 ms, which \<open>toISOString\<close> prints as
  2023-11-14T22:13:20.000Z; \<open>toLowerCase\<close> is given on ASCII letters.
\<close>

definition example_env :: env where
  "example_env =
     \<lparr>clock = (\<lambda>n. 1700000000000),
      toISOString = (\<lambda>t. js ''2023-11-14T22:13:20.000Z''),
      toLowerCase = map (\<lambda>c. if 0x41 \<le> c \<and> c \<le> 0x5A then c + 0x20 else c)\<rparr>"

definition example_project :: project where
  "example_project =
     \<lparr>uid = js ''project_1'', bummUid = Some (js ''bumm-42''), name = Some (js ''Token''),
      status = js ''generated'', task = None, created_at = js ''2023-11-01T00:00:00.000Z'',
      updated_at = js ''2023-11-02T00:00:00.000Z'', isDeployed = True, isFrozen = True,
      contractAddress = None, contract_address = Some (js ''Addr0''),
      deployment_status = Some (js ''deployed'')\<rparr>"

definition example_other_project :: project where
  "example_other_project =
     \<lparr>uid = js ''project_2'', bummUid = None, name = None,
      status = js ''draft'', task = None, created_at = js ''2023-11-03T00:00:00.000Z'',
      updated_at = js ''2023-11-03T00:00:00.000Z'', isDeployed = False, isFrozen = False,
      contractAddress = None, contract_address = None, deployment_status = None\<rparr>"

definition example_unnamed_project :: project where
  "example_unnamed_project = example_project\<lparr>name := Some []\<rparr>"

definition example_clock_project :: project where
  "example_clock_project = example_project\<lparr>uid := js ''project_1700000000000''\<rparr>"

definition example_project_empty_bummUid :: project where
  "example_project_empty_bummUid = example_project\<lparr>bummUid := Some []\<rparr>"

definition example_state :: dashboard where
  "example_state =
     \<lparr>user = Some \<lparr>user_id = js ''u1'', walletAddress = js ''Wa11et''\<rparr>,
      projects = [example_other_project, example_project],
      currentProject = Some example_project,
      messages = [], isBuilding = False, generatedCode = None,
      generationAttemptFailed = 0, messageIdCounter = 0, clockReads = 0\<rparr>"

definition example_signed_out :: dashboard where
  "example_signed_out = example_state\<lparr>user := None\<rparr>"

definition example_buildContract ::
  "jsstring \<Rightarrow> jsstring option \<Rightarrow> dashboard \<Rightarrow> (thrown + project) \<times> dashboard" where
  "example_buildContract code u s = (Inr example_project, s)"

definition example_buildContract_empty_bummUid ::
  "jsstring \<Rightarrow> jsstring option \<Rightarrow> dashboard \<Rightarrow> (thrown + project) \<times> dashboard" where
  "example_buildContract_empty_bummUid code u s = (Inr example_project_empty_bummUid, s)"

definition example_deployContract :: "jsstring \<Rightarrow> dashboard \<Rightarrow> (thrown + jsstring) \<times> dashboard" where
  "example_deployContract code s = (Inr (js ''Addr1''), s)"

definition example_sendChatMessage ::
  "jsstring \<Rightarrow> jsstring option \<Rightarrow> dashboard \<Rightarrow> (thrown + chat_response) \<times> dashboard" where
  "example_sendChatMessage m u s =
     (Inr \<lparr>reply = js ''Generating your contract.'', action = Some (js ''generate''),
           bumm_uid = Some (js ''bumm-43'')\<rparr>, s)"

definition example_createProject :: "jsstring \<Rightarrow> dashboard \<Rightarrow> (thrown + project) \<times> dashboard" where
  "example_createProject n s = (Inr (example_other_project\<lparr>name := Some n\<rparr>), s)"

section \<open>Properties of the status vocabulary\<close>

lemmas TASK_STATUS_defs =
  GENERATE_NEW_def GENERATE_INITIALIZING_def GENERATE_INITIALIZED_def GENERATE_GENERATING_def
  GENERATE_GENERATED_def GENERATE_TESTING_def GENERATE_TESTED_def GENERATE_DEPLOYING_def
  GENERATE_DEPLOYED_def GENERATE_ERROR_def AUDIT_NEW_def AUDIT_AUDITING_def AUDIT_AUDITED_def
  AUDIT_ERROR_def BUILD_NEW_def BUILD_BUILDING_def BUILD_BUILT_def BUILD_ERROR_def
  DEPLOY_NEW_def DEPLOY_DEPLOYING_def DEPLOY_DEPLOYED_def DEPLOY_ERROR_def


lemma unat_of_char: "unat (of_char c :: code_unit) = of_char c"
proof -
  have "(of_char c :: nat) < 2 ^ 16"
    by (rule less_trans [OF nat_of_char_less_256]) simp
  moreover have "(of_char c :: code_unit) = word_of_nat (of_char c)"
    by (simp add: of_char_def)
  ultimately show ?thesis
    by (simp add: unat_of_nat)
qed

lemma of_char_code_unit_eq_iff: "(of_char c :: code_unit) = of_char d \<longleftrightarrow> c = d"
proof
  assume "(of_char c :: code_unit) = of_char d"
  then have "unat (of_char c :: code_unit) = unat (of_char d :: code_unit)"
    by simp
  then have "(of_char c :: nat) = of_char d"
    by (simp only: unat_of_char)
  then show "c = d"
    by (simp only: of_char_eq_iff)
qed simp

lemma js_eq_iff: "js a = js b \<longleftrightarrow> a = b"
  unfolding js_def by (rule inj_map_eq_map) (simp add: inj_on_def of_char_code_unit_eq_iff)

text \<open>
  C1: \<open>isTaskCompleted status taskType\<close> is true exactly for generate at "generated" or
  "deployed", audit at "audited", build at "built" and deploy at "deployed", and false
  for every other pair; in particular it is false for ("generated", "audit").
\<close>

theorem isTaskCompleted_iff:
  "(isTaskCompleted s t \<longleftrightarrow>
      (t = js ''generate'' \<and> (s = js ''generated'' \<or> s = js ''deployed''))
    \<or> (t = js ''audit'' \<and> s = js ''audited'')
    \<or> (t = js ''build'' \<and> s = js ''built'')
    \<or> (t = js ''deploy'' \<and> s = js ''deployed''))
   \<and> isTaskCompleted (js ''generated'') (js ''audit'') = False"
  by (simp add: isTaskCompleted_def TASK_STATUS_defs js_eq_iff)

text \<open>
  C2: \<open>isTaskError status\<close> is true if and only if the status is the literal "error";
  the function takes no task type.
\<close>

theorem isTaskError_iff: "isTaskError s \<longleftrightarrow> s = js ''error''"
  by (simp add: isTaskError_def)

lemma js_Nil_iff: "js a = [] \<longleftrightarrow> a = []"
  by (simp add: js_def)

lemmas status_vocabulary_defs =
  getProgressFromStatus_def getStatusDisplayName_def js_get_def progressTable_def
  displayNames_def defaultProgress_def Object_prototype_keys_def

text \<open>
  A status that is neither a key of the table nor the name of a member of
  \<open>Object.prototype\<close> gets the default tuple and its own text as display name.
\<close>

lemma getProgressFromStatus_unlisted:
  "map_of progressTable s = None \<Longrightarrow> s \<notin> set Object_prototype_keys \<Longrightarrow>
   getProgressFromStatus s = Value defaultProgress"
  by (simp add: getProgressFromStatus_def js_get_def)

lemma getStatusDisplayName_unlisted:
  "map_of displayNames s = None \<Longrightarrow> s \<notin> set Object_prototype_keys \<Longrightarrow>
   getStatusDisplayName s = Value s"
  by (simp add: getStatusDisplayName_def js_get_def)

text \<open>Whenever the result is a progress tuple, its percentage lies between 0 and 100.\<close>

lemma progress_of_range:
  "progress_of (getProgressFromStatus s) = Some n \<Longrightarrow> 0 \<le> n \<and> n \<le> 100"
  by (auto simp add: progress_of_def getProgressFromStatus_def js_get_def progressTable_def
      defaultProgress_def split: option.splits if_splits js_result.splits)

text \<open>
  C3: the status "constructor" is a key of neither table, yet
  \<open>getProgressFromStatus\<close> does not give the default tuple and \<open>getStatusDisplayName\<close>
  does not give the raw string: the lookup \<open>statusMap[status]\<close> finds the inherited
  \<open>Object.prototype.constructor\<close>, which is truthy, and both functions return it.
\<close>

theorem unlisted_status_constructor:
  "map_of progressTable (js ''constructor'') = None
   \<and> map_of displayNames (js ''constructor'') = None
   \<and> getProgressFromStatus (js ''constructor'') = Builtin (js ''constructor'')
   \<and> getStatusDisplayName (js ''constructor'') = Builtin (js ''constructor'')"
  by (simp add: status_vocabulary_defs js_eq_iff)

text \<open>
  C5: for the status "constructor" the result of \<open>getProgressFromStatus\<close> is the
  inherited \<open>Object.prototype.constructor\<close>; reading \<open>.progress\<close> on it gives
  \<open>undefined\<close>, not an integer between 0 and 100.
\<close>

theorem progress_of_constructor:
  "progress_of (getProgressFromStatus (js ''constructor'')) = None"
  by (simp add: progress_of_def status_vocabulary_defs js_eq_iff)

text \<open>
  C9: "initialized" is one of the values of \<open>TASK_STATUS.GENERATE\<close> and has the display
  name "Initialized", but it is not a key of the progress table:
  \<open>getProgressFromStatus\<close> gives the default tuple for it, with stage "initializing",
  progress 0 and message "Processing...".
\<close>

theorem initialized_has_default_progress:
  "getProgressFromStatus (js ''initialized'') = Value defaultProgress
   \<and> defaultProgress
       = \<lparr>stage = js ''initializing'', progress = 0, message = js ''Processing...''\<rparr>
   \<and> map_of progressTable (js ''initialized'') = None
   \<and> js ''initialized'' \<in> set TASK_STATUS_GENERATE
   \<and> getStatusDisplayName (js ''initialized'') = Value (js ''Initialized'')"
  by (simp add: status_vocabulary_defs TASK_STATUS_GENERATE_def TASK_STATUS_defs js_eq_iff
      js_Nil_iff)

section \<open>Properties of the dashboard handlers\<close>

lemmas example_defs =
  example_env_def example_project_def example_other_project_def example_unnamed_project_def
  example_clock_project_def
  example_project_empty_bummUid_def example_state_def example_signed_out_def
  example_buildContract_def example_buildContract_empty_bummUid_def example_deployContract_def
  example_sendChatMessage_def example_createProject_def

text \<open>\<open>code.trim()\<close> is the empty string exactly when \<open>code\<close> is made of white space only.\<close>

lemma trim_empty_iff: "trim s = [] \<longleftrightarrow> list_all isWhiteSpace s"
proof -
  have "trim s = [] \<longleftrightarrow> (\<forall>c\<in>set (dropWhile isWhiteSpace s). isWhiteSpace c)"
    by (simp add: trim_def dropWhile_eq_Nil_conv)
  also have "\<dots> \<longleftrightarrow> dropWhile isWhiteSpace s = []"
  proof (cases "dropWhile isWhiteSpace s")
    case Nil
    then show ?thesis
      by (simp del: dropWhile_eq_Nil_conv)
  next
    case (Cons c cs)
    then have "\<not> isWhiteSpace c"
      using hd_dropWhile [of isWhiteSpace s] by (simp del: dropWhile_eq_Nil_conv)
    with Cons show ?thesis
      by (auto simp del: dropWhile_eq_Nil_conv)
  qed
  also have "\<dots> \<longleftrightarrow> list_all isWhiteSpace s"
    by (simp add: dropWhile_eq_Nil_conv list_all_iff)
  finally show ?thesis .
qed

lemma trim_example_code: "trim (js ''fn main() {}'') \<noteq> []"
  by (simp add: trim_empty_iff js_def isWhiteSpace_def)

lemma decimal_example:
  "decimal 1700000000000 = js ''1700000000000''" "decimal (Suc 0) = js ''1''"
  by (simp_all add: decimal.simps digit_def js_def)

lemma postMessage_frame [simp]:
  "projects (snd (postMessage e t f p ty s)) = projects s"
  "currentProject (snd (postMessage e t f p ty s)) = currentProject s"
  "user (snd (postMessage e t f p ty s)) = user s"
  by (simp_all add: postMessage_def generateUniqueMessageId_def Date_now_def setMessages_def
      Let_def split_def)

text \<open>
  C7: when there is no current user, or the code is white space only, \<open>handleBuild\<close>
  and \<open>handleDeploy\<close> return at once: the state is the one they were called in (no
  chat message, no change to any project), no tracker or other call is made, the
  result does not depend on the transport (\<open>buildContract\<close>, \<open>deployContract\<close>), and
  \<open>handleDeploy\<close> resolves to \<open>undefined\<close>.
\<close>

theorem handlers_fail_fast:
  assumes "user s = None \<or> list_all isWhiteSpace code"
  shows "handleBuild e buildContract code s = (s, [])
       \<and> handleDeploy e deployContract code s = (Resolved None, s, [])"
  using assms by (auto simp add: handleBuild_def handleDeploy_def trim_empty_iff)

text \<open>
  The theorem at work: a signed-in user with code of a space, a line feed and a tab, and
  a signed-out user with real code.
\<close>

theorem handlers_fail_fast_witness:
  "handleBuild example_env example_buildContract [0x20, 0x0A, 0x09] example_state
     = (example_state, [])
   \<and> handleDeploy example_env example_deployContract [0x20, 0x0A, 0x09] example_state
     = (Resolved None, example_state, [])
   \<and> handleBuild example_env example_buildContract (js ''fn main() {}'') example_signed_out
     = (example_signed_out, [])
   \<and> handleDeploy example_env example_deployContract (js ''fn main() {}'') example_signed_out
     = (Resolved None, example_signed_out, [])"
proof -
  have blank: "user example_state = None \<or> list_all isWhiteSpace [0x20, 0x0A, 0x09]"
    by (simp add: isWhiteSpace_def)
  have nobody: "user example_signed_out = None \<or> list_all isWhiteSpace (js ''fn main() {}'')"
    by (simp add: example_signed_out_def)
  show ?thesis
    using handlers_fail_fast [OF blank, of example_env example_buildContract example_deployContract]
      handlers_fail_fast [OF nobody, of example_env example_buildContract example_deployContract]
    by simp
qed

text \<open>
  C8: when \<open>handleDeploy\<close> passes its guard with a current project \<open>cur\<close> and the
  transport answers with the address \<open>addr\<close>, leaving the state \<open>s'\<close>, then it is the
  handler that attaches the address: in the collection as the transport left it, every
  project with the uid of \<open>cur\<close> becomes \<open>cur\<close> with \<open>contractAddress = addr\<close>,
  \<open>isDeployed = true\<close>, status "deployed" and \<open>updated_at\<close> read from the clock at that
  moment, every other project stays as it is, and the promise resolves to the bare
  address.
\<close>

theorem handleDeploy_attaches_address:
  assumes "user s \<noteq> None" and "trim code \<noteq> []" and "currentProject s = Some cur"
    and "deployContract code (snd (postMessage e (js ''Starting deployment...'') False None None s))
         = (Inr addr, s')"
  shows "\<exists>s'' updated.
           handleDeploy e deployContract code s
             = (Resolved (Some addr), s'', [TrackContractDeploy (uid cur) addr])
         \<and> updated = cur\<lparr>contractAddress := Some addr, isDeployed := True,
                         status := js ''deployed'',
                         updated_at := toISOString e (clock e (clockReads s'))\<rparr>
         \<and> projects s'' = map (\<lambda>p. if uid p = uid cur then updated else p) (projects s')
         \<and> currentProject s'' = Some updated"
  using assms
  by (simp add: handleDeploy_def Let_def split_def Date_now_def setCurrentProject_def
      updateProjects_def)

text \<open>
  The theorem at work: of the two projects of the example, the current one receives
  the address and the other one is untouched.
\<close>

theorem handleDeploy_attaches_address_witness:
  "fst (handleDeploy example_env example_deployContract (js ''fn main() {}'') example_state)
     = Resolved (Some (js ''Addr1''))
   \<and> projects (fst (snd (handleDeploy example_env example_deployContract (js ''fn main() {}'')
        example_state)))
     = [example_other_project,
        example_project\<lparr>contractAddress := Some (js ''Addr1''), isDeployed := True,
          status := js ''deployed'', updated_at := js ''2023-11-14T22:13:20.000Z''\<rparr>]"
proof -
  have u: "user example_state \<noteq> None"
    by (simp add: example_state_def)
  have c: "currentProject example_state = Some example_project"
    by (simp add: example_state_def)
  have d: "example_deployContract (js ''fn main() {}'')
             (snd (postMessage example_env (js ''Starting deployment...'') False None None
                     example_state))
           = (Inr (js ''Addr1''),
              snd (postMessage example_env (js ''Starting deployment...'') False None None
                     example_state))"
    by (simp add: example_deployContract_def)
  from handleDeploy_attaches_address
         [where deployContract = example_deployContract and e = example_env
            and s = example_state, OF u trim_example_code c d]
  show ?thesis
    by (auto simp add: example_state_def example_env_def example_project_def
        example_other_project_def js_eq_iff)
qed

text \<open>
  C4, amended: at both call sites of \<open>trackTaskStatus\<close> the first argument is the uid
  of the project and the last one the backend identifier. In \<open>handleBuild\<close> the project
  \<open>p\<close> is the one \<open>buildContract\<close> resolved with, and the last argument is its
  \<open>bummUid\<close>, or its \<open>uid\<close> when the \<open>bummUid\<close> is absent or the empty string. In
  \<open>handleSendMessage\<close> the project \<open>q\<close> is the current project, or the one
  \<open>createProject\<close> resolved with when there is none, and the last argument is the
  \<open>bumm_uid\<close> of the chat response.
\<close>

theorem trackTaskStatus_call_sites:
  "(user s \<noteq> None \<and> trim code \<noteq> [] \<and>
    postMessage e ([0xD83D, 0xDD27] @ js '' Initializing build...'') False None None
      (setIsBuilding True s) = (mid, s1) \<and>
    buildContract code (map_option uid (currentProject s)) s1 = (Inr p, s2)
    \<longrightarrow> snd (handleBuild e buildContract code s)
        = [TrackTaskStatus (uid p) (js ''build'') (BuildCallbacks mid p)
             (case bummUid p of Some b \<Rightarrow> if b = [] then uid p else b | None \<Rightarrow> uid p)])
   \<and> (sendChatMessage (messageToSend e c ccc) (currentBummUid (currentProject s))
         (snd (postMessage e c True None None s)) = (Inr resp, t2) \<and>
       action resp = Some (js ''generate'') \<and> bumm_uid resp = Some b' \<and> b' \<noteq> [] \<and>
       (currentProject s = Some q \<or>
        currentProject s = None \<and>
        createProject (js ''New Contract'') (snd (postMessage e (reply resp) False None None t2))
          = (Inr q, t3))
    \<longrightarrow> (\<exists>mid'. snd (handleSendMessage e sendChatMessage createProject c ccc s)
          = [TrackTaskStatus (uid q) (js ''generate'')
               (GenerateCallbacks mid' (q\<lparr>bummUid := Some b', status := js ''in-progress''\<rparr>))
               b']))"
  by (auto simp add: handleBuild_def handleSendMessage_def handleSendMessage_generate_def
      Let_def split_def or_else_def setCurrentProject_def split: option.splits)

text \<open>
  The theorem at work: a build of the example project is tracked under its uid
  "project_1" and polled under "bumm-42"; a generation started from the chat is tracked
  under "project_1" and polled under "bumm-43".
\<close>

theorem trackTaskStatus_call_sites_witness:
  "snd (handleBuild example_env example_buildContract (js ''fn main() {}'') example_state)
     = [TrackTaskStatus (js ''project_1'') (js ''build'')
          (BuildCallbacks (js ''1700000000000_1'') example_project) (js ''bumm-42'')]
   \<and> (\<exists>mid. snd (handleSendMessage example_env example_sendChatMessage example_createProject
                  (js ''make a token'') None example_state)
          = [TrackTaskStatus (js ''project_1'') (js ''generate'')
               (GenerateCallbacks mid
                  (example_project\<lparr>bummUid := Some (js ''bumm-43''), status := js ''in-progress''\<rparr>))
               (js ''bumm-43'')])"
proof -
  let ?s1 = "snd (postMessage example_env ([0xD83D, 0xDD27] @ js '' Initializing build...'')
                    False None None (setIsBuilding True example_state))"
  let ?t2 = "snd (postMessage example_env (js ''make a token'') True None None example_state)"
  let ?resp = "\<lparr>reply = js ''Generating your contract.'', action = Some (js ''generate''),
                 bumm_uid = Some (js ''bumm-43'')\<rparr>"
  have u: "user example_state \<noteq> None"
    by (simp add: example_state_def)
  have m: "postMessage example_env ([0xD83D, 0xDD27] @ js '' Initializing build...'') False None
             None (setIsBuilding True example_state) = (js ''1700000000000_1'', ?s1)"
    by (simp add: postMessage_def generateUniqueMessageId_def Date_now_def Let_def split_def
        setIsBuilding_def example_state_def example_env_def decimal_example js_def)
  have b: "example_buildContract (js ''fn main() {}'')
             (map_option uid (currentProject example_state)) ?s1 = (Inr example_project, ?s1)"
    by (simp add: example_buildContract_def)
  have g: "example_sendChatMessage (messageToSend example_env (js ''make a token'') None)
             (currentBummUid (currentProject example_state)) ?t2 = (Inr ?resp, ?t2)"
    by (simp add: example_sendChatMessage_def)
  have c: "currentProject example_state = Some example_project"
    by (simp add: example_state_def)
  have n: "js ''bumm-43'' \<noteq> []"
    by (simp add: js_def)
  from trackTaskStatus_call_sites
         [where s = example_state and e = example_env and code = "js ''fn main() {}''"
            and buildContract = example_buildContract and p = example_project
            and mid = "js ''1700000000000_1''" and ?s1.0 = ?s1 and ?s2.0 = ?s1
            and sendChatMessage = example_sendChatMessage and c = "js ''make a token''"
            and ccc = None and resp = ?resp and ?t2.0 = ?t2 and ?t3.0 = example_state
            and q = example_project and b' = "js ''bumm-43''"
            and createProject = example_createProject]
       u trim_example_code m b g c n
  show ?thesis
    by (simp add: example_project_def js_Nil_iff)
qed

text \<open>
  C4 as it is worded fails for a project whose \<open>bummUid\<close> is present and empty:
  \<open>project.bummUid || project.uid\<close> is then the local uid "project_1", which becomes
  the polling argument.
\<close>

theorem trackTaskStatus_empty_bummUid_counterexample:
  "bummUid example_project_empty_bummUid = Some []
   \<and> snd (handleBuild example_env example_buildContract_empty_bummUid (js ''fn main() {}'')
        example_state)
     = [TrackTaskStatus (js ''project_1'') (js ''build'')
          (BuildCallbacks (js ''1700000000000_1'') example_project_empty_bummUid)
          (js ''project_1'')]
   \<and> js ''project_1'' \<noteq> []"
  by (simp add: handleBuild_def Let_def split_def or_else_def example_defs
      postMessage_def generateUniqueMessageId_def Date_now_def setMessages_def setIsBuilding_def
      decimal_example js_def trim_empty_iff isWhiteSpace_def)

text \<open>
  C10, amended: \<open>handleDuplicateProject\<close> puts a copy in front of the collection and
  leaves the collection behind it as it was. The copy has \<open>isDeployed = false\<close>,
  \<open>isFrozen = false\<close>, \<open>contract_address = null\<close> and \<open>deployment_status = null\<close> whatever
  the original holds, \<open>created_at\<close> and \<open>updated_at\<close> read from the clock during the call,
  and as name the original name followed by " (Copy)", where "Untitled" takes the place
  of a name that is absent or empty. Nothing is said about the uid of the copy.
\<close>

theorem handleDuplicateProject_copy:
  "\<exists>dup. projects (handleDuplicateProject e p s) = dup # projects s
     \<and> isDeployed dup = False \<and> isFrozen dup = False
     \<and> contract_address dup = None \<and> deployment_status dup = None
     \<and> name dup = Some ((case name p of
                            Some n \<Rightarrow> if n = [] then js ''Untitled'' else n
                          | None \<Rightarrow> js ''Untitled'') @ js '' (Copy)'')
     \<and> created_at dup = toISOString e (clock e (clockReads s + 1))
     \<and> updated_at dup = toISOString e (clock e (clockReads s + 2))"
  by (simp add: handleDuplicateProject_def addAIMessage_def Let_def split_def Date_now_def
      updateProjects_def or_else_def split: option.splits)

text \<open>
  The uid of the copy is made of the clock reading alone; unlike
  \<open>generateUniqueMessageId\<close>, no counter keeps two of them apart.
\<close>

lemma handleDuplicateProject_uid:
  "uid (hd (projects (handleDuplicateProject e p s)))
     = js ''project_'' @ decimal (clock e (clockReads s))"
  by (simp add: handleDuplicateProject_def addAIMessage_def Let_def split_def Date_now_def
      updateProjects_def)

text \<open>
  What the copy takes over from the original, among the fields the spread carries along:
  the status and the \<open>contractAddress\<close> that \<open>handleDeploy\<close> sets.
\<close>

lemma handleDuplicateProject_carries_over:
  "\<exists>dup. projects (handleDuplicateProject e p s) = dup # projects s
     \<and> status dup = status p \<and> contractAddress dup = contractAddress p
     \<and> bummUid dup = bummUid p \<and> task dup = task p"
  by (simp add: handleDuplicateProject_def addAIMessage_def Let_def split_def Date_now_def
      updateProjects_def)

text \<open>
  C10 as it is worded fails in two ways. For a project with an empty name, and for one
  with no name at all, the copy is called "Untitled (Copy)", which is not the original
  name followed by " (Copy)". And the uid of the copy is not always fresh: with the clock
  at 1700000000000, the copy of a project with the uid "project_1700000000000" has the
  uid of its original, and two copies made in a row have the same uid.
\<close>

theorem handleDuplicateProject_counterexample:
  "name example_unnamed_project = Some []
   \<and> name (hd (projects (handleDuplicateProject example_env example_unnamed_project
        example_state)))
       = Some (js ''Untitled (Copy)'')
   \<and> js ''Untitled (Copy)'' \<noteq> [] @ js '' (Copy)''
   \<and> name example_other_project = None
   \<and> name (hd (projects (handleDuplicateProject example_env example_other_project
        example_state)))
       = Some (js ''Untitled (Copy)'')
   \<and> uid (hd (projects (handleDuplicateProject example_env example_clock_project
        example_state)))
       = uid example_clock_project
   \<and> uid (projects (handleDuplicateProject example_env example_project
        (handleDuplicateProject example_env example_project example_state)) ! 0)
       = uid (projects (handleDuplicateProject example_env example_project
        (handleDuplicateProject example_env example_project example_state)) ! 1)"
  by (simp add: handleDuplicateProject_def addAIMessage_def postMessage_def
      generateUniqueMessageId_def setMessages_def Let_def split_def Date_now_def
      updateProjects_def or_else_def example_defs decimal_example js_def)

end
